theory Spec2Isabelle
  imports Main
begin

section \<open>Keys and paths\<close>

text \<open>
  \<^verbatim>\<open>type PropName = string | number | symbol\<close> and \<^verbatim>\<open>type PropPath = PropName[]\<close>.
  A number key is an array index (a natural number); a symbol is identified by a number.
  When a key indexes a JavaScript object it is converted to a property key: a number
  becomes its decimal string, a symbol stays a symbol.
\<close>

datatype key = KStr string | KNum nat | KSym nat

type_synonym path = "key list"

datatype pkey = PStr string | PSym nat

definition digit_char :: "nat \<Rightarrow> char" where
  "digit_char d =
     (if d = 0 then CHR ''0'' else if d = 1 then CHR ''1'' else if d = 2 then CHR ''2''
      else if d = 3 then CHR ''3'' else if d = 4 then CHR ''4'' else if d = 5 then CHR ''5''
      else if d = 6 then CHR ''6'' else if d = 7 then CHR ''7'' else if d = 8 then CHR ''8''
      else CHR ''9'')"

fun show_nat :: "nat \<Rightarrow> string" where
  "show_nat n = (if n < 10 then [digit_char n] else show_nat (n div 10) @ [digit_char (n mod 10)])"

declare show_nat.simps [simp del]

fun toPropertyKey :: "key \<Rightarrow> pkey" where
  "toPropertyKey (KStr s) = PStr s"
| "toPropertyKey (KNum n) = PStr (show_nat n)"
| "toPropertyKey (KSym i) = PSym i"

fun ofPropertyKey :: "pkey \<Rightarrow> key" where
  "ofPropertyKey (PStr s) = KStr s"
| "ofPropertyKey (PSym i) = KSym i"

text \<open>\<^verbatim>\<open>path[0]\<close> used as an index: the first key, or \<^verbatim>\<open>undefined\<close> (the property key
  "undefined") when the path is empty.\<close>

fun headKey :: "path \<Rightarrow> pkey" where
  "headKey [] = PStr ''undefined''"
| "headKey (k # ks) = toPropertyKey k"

subsection \<open>\<^verbatim>\<open>_propPathExistsIn\<close>\<close>

text \<open>The inner loop over \<^verbatim>\<open>j\<close>, run when both arrays have the same length; keys are
  compared with \<^verbatim>\<open>!==\<close>.\<close>

fun arraysAreEqual :: "path \<Rightarrow> path \<Rightarrow> bool" where
  "arraysAreEqual [] item = True"
| "arraysAreEqual (n # needle) [] = True"
| "arraysAreEqual (n # needle) (i # item) = (if n \<noteq> i then False else arraysAreEqual needle item)"

fun propPathExistsIn :: "path \<Rightarrow> path list \<Rightarrow> bool" where
  "propPathExistsIn needle [] = False"
| "propPathExistsIn needle (item # haystack) =
     (if length needle = length item \<and> arraysAreEqual needle item then True
      else propPathExistsIn needle haystack)"

section \<open>Association lists for JavaScript objects\<close>

text \<open>An object's own properties, in insertion order.\<close>

fun alookup :: "('k \<times> 'v) list \<Rightarrow> 'k \<Rightarrow> 'v option" where
  "alookup [] k = None"
| "alookup ((k', v) # kvs) k = (if k' = k then Some v else alookup kvs k)"

fun aupdate :: "'k \<Rightarrow> 'v \<Rightarrow> ('k \<times> 'v) list \<Rightarrow> ('k \<times> 'v) list" where
  "aupdate k v [] = [(k, v)]"
| "aupdate k v ((k', v') # kvs) = (if k' = k then (k, v) # kvs else (k', v') # aupdate k v kvs)"

fun adelete :: "'k \<Rightarrow> ('k \<times> 'v) list \<Rightarrow> ('k \<times> 'v) list" where
  "adelete k [] = []"
| "adelete k ((k', v') # kvs) = (if k' = k then adelete k kvs else (k', v') # adelete k kvs)"

section \<open>\<^verbatim>\<open>ReversedDependencies\<close>\<close>

text \<open>
  \<^verbatim>\<open>Record<PropName, { works, dependencies }>\<close>: a trie whose edges are property keys.
  A Work is referred to by its identity (a number).
\<close>

type_synonym wid = nat

datatype rdeps = RDeps "(pkey \<times> wid list \<times> rdeps) list"

fun rstruct :: "rdeps \<Rightarrow> (pkey \<times> wid list \<times> rdeps) list" where
  "rstruct (RDeps kvs) = kvs"

fun recursiveGet :: "rdeps \<Rightarrow> path \<Rightarrow> wid list" where
  "recursiveGet structure [] = []"
| "recursiveGet structure [k] =
     (case alookup (rstruct structure) (toPropertyKey k) of
        None \<Rightarrow> []
      | Some (ws, ds) \<Rightarrow> ws)"
| "recursiveGet structure (k # k' # ks) =
     (case alookup (rstruct structure) (toPropertyKey k) of
        None \<Rightarrow> []
      | Some (ws, ds) \<Rightarrow> recursiveGet ds (k' # ks))"

fun recursiveAdd :: "rdeps \<Rightarrow> path \<Rightarrow> wid \<Rightarrow> rdeps" where
  "recursiveAdd structure [] work = structure"
| "recursiveAdd structure [k] work =
     (case alookup (rstruct structure) (toPropertyKey k) of
        None \<Rightarrow> RDeps (aupdate (toPropertyKey k) ([work], RDeps []) (rstruct structure))
      | Some (ws, ds) \<Rightarrow> RDeps (aupdate (toPropertyKey k) (ws @ [work], ds) (rstruct structure)))"
| "recursiveAdd structure (k # k' # ks) work =
     (case alookup (rstruct structure) (toPropertyKey k) of
        None \<Rightarrow>
          RDeps (aupdate (toPropertyKey k) ([], recursiveAdd (RDeps []) (k' # ks) work) (rstruct structure))
      | Some (ws, ds) \<Rightarrow>
          RDeps (aupdate (toPropertyKey k) (ws, recursiveAdd ds (k' # ks) work) (rstruct structure)))"

text \<open>\<^verbatim>\<open>_getReversedWorksDependencies\<close>: every Work of the registry, in order, adds each of
  its dependencies, in order. The argument pairs each registered Work with its dependencies.\<close>

fun addDependencies :: "rdeps \<Rightarrow> wid \<Rightarrow> path list \<Rightarrow> rdeps" where
  "addDependencies t work [] = t"
| "addDependencies t work (d # ds) = addDependencies (recursiveAdd t d work) work ds"

fun addWorks :: "rdeps \<Rightarrow> (wid \<times> path list) list \<Rightarrow> rdeps" where
  "addWorks t [] = t"
| "addWorks t ((work, ds) # ws) = addWorks (addDependencies t work ds) ws"

definition getReversedWorksDependencies :: "(wid \<times> path list) list \<Rightarrow> rdeps" where
  "getReversedWorksDependencies ws = addWorks (RDeps []) ws"

section \<open>\<^verbatim>\<open>_checkLoopInStack\<close>\<close>

fun indexOf :: "'a list \<Rightarrow> 'a \<Rightarrow> nat option" where
  "indexOf [] x = None"
| "indexOf (y # ys) x = (if y = x then Some 0 else map_option Suc (indexOf ys x))"

text \<open>The first loop: \<^verbatim>\<open>workList\<close> and \<^verbatim>\<open>workCount\<close> (a count for each index of
  \<^verbatim>\<open>workList\<close>).\<close>

fun countWorks :: "wid list \<Rightarrow> wid list \<times> nat list \<Rightarrow> wid list \<times> nat list" where
  "countWorks [] (workList, workCount) = (workList, workCount)"
| "countWorks (work # stack) (workList, workCount) =
     (case indexOf workList work of
        None \<Rightarrow> countWorks stack (workList @ [work], workCount @ [0 + 1])
      | Some index \<Rightarrow> countWorks stack (workList, workCount[index := workCount ! index + 1]))"

fun maxCountOf :: "nat list \<Rightarrow> nat \<Rightarrow> nat" where
  "maxCountOf [] maxCount = maxCount"
| "maxCountOf (c # cs) maxCount = maxCountOf cs (if c > maxCount then c else maxCount)"

definition checkLoopInStack :: "wid list \<Rightarrow> bool" where
  "checkLoopInStack stack = (maxCountOf (snd (countWorks stack ([], []))) 0 > 20)"

section \<open>Values, objects and the observed heap\<close>

text \<open>
  JavaScript values: the primitives, and references to objects, which have an identity.
  An object of the heap is a plain object or array (\<open>Plain\<close>), an instance of a class
  (\<open>Instance\<close>, whose members are outside the model), or the proxy that
  \<^verbatim>\<open>_createObjectProxy\<close> returns. The three callbacks a proxy closes over all come from the
  same store and the same path prefix (\<^verbatim>\<open>getter\<close> calls \<^verbatim>\<open>_propAccessed\<close>, \<^verbatim>\<open>setter\<close> and
  \<^verbatim>\<open>deletter\<close> call \<^verbatim>\<open>_propEdited\<close>, each \<^verbatim>\<open>bind\<close> appends a key), so a proxy records the
  store, the prefix and its \<^verbatim>\<open>currentPath\<close> map.
  Members inherited from \<^verbatim>\<open>Object.prototype\<close> and \<^verbatim>\<open>Array.prototype\<close> (and the
  \<^verbatim>\<open>length\<close> of arrays) are outside the model, and numbers are integers.
\<close>

type_synonym sid = nat
type_synonym ref = nat

datatype val = VUndef | VNull | VBool bool | VNum int | VStr string | VRef ref

datatype okind = Plain | Instance | Proxied sid path "(ref \<times> ref) list"

record hobj =
  o_kind :: okind
  o_array :: bool
  o_fields :: "(pkey \<times> val) list"

fun isObject :: "val \<Rightarrow> bool" where
  "isObject (VRef r) = True"
| "isObject v = False"

fun truthy :: "val \<Rightarrow> bool" where
  "truthy VUndef = False"
| "truthy VNull = False"
| "truthy (VBool b) = b"
| "truthy (VNum n) = (n \<noteq> 0)"
| "truthy (VStr s) = (s \<noteq> [])"
| "truthy (VRef r) = True"

subsection \<open>Literals of the calling code\<close>

datatype lit = LUndef | LNull | LBool bool | LNum int | LStr string
  | LObj "(string \<times> lit) list" | LArr "lit list" | LNew

fun evalLit :: "lit \<Rightarrow> hobj list \<Rightarrow> val \<times> hobj list"
  and evalFields :: "(string \<times> lit) list \<Rightarrow> hobj list \<Rightarrow> (pkey \<times> val) list \<times> hobj list"
  and evalElems :: "lit list \<Rightarrow> nat \<Rightarrow> hobj list \<Rightarrow> (pkey \<times> val) list \<times> hobj list" where
  "evalLit LUndef h = (VUndef, h)"
| "evalLit LNull h = (VNull, h)"
| "evalLit (LBool b) h = (VBool b, h)"
| "evalLit (LNum n) h = (VNum n, h)"
| "evalLit (LStr s) h = (VStr s, h)"
| "evalLit (LObj fs) h =
     (case evalFields fs h of (kvs, h') \<Rightarrow>
        (VRef (length h'), h' @ [\<lparr>o_kind = Plain, o_array = False, o_fields = kvs\<rparr>]))"
| "evalLit (LArr es) h =
     (case evalElems es 0 h of (kvs, h') \<Rightarrow>
        (VRef (length h'), h' @ [\<lparr>o_kind = Plain, o_array = True, o_fields = kvs\<rparr>]))"
| "evalLit LNew h = (VRef (length h), h @ [\<lparr>o_kind = Instance, o_array = False, o_fields = []\<rparr>])"
| "evalFields [] h = ([], h)"
| "evalFields ((k, l) # fs) h =
     (case evalLit l h of (v, h1) \<Rightarrow>
        (case evalFields fs h1 of (kvs, h2) \<Rightarrow> (aupdate (PStr k) v kvs, h2)))"
| "evalElems [] n h = ([], h)"
| "evalElems (l # es) n h =
     (case evalLit l h of (v, h1) \<Rightarrow>
        (case evalElems es (Suc n) h1 of (kvs, h2) \<Rightarrow> ((PStr (show_nat n), v) # kvs, h2)))"

section \<open>Works, stores and the world\<close>

text \<open>
  The code that uses the library (the body of a handler, or the caller's script) is a list
  of statements over the stores' public interface. A store is named by its number, as a
  closure names it by a variable.
\<close>

datatype expr =
    Lit lit
  | PropE sid key path
  | CompE sid key
  | AndE expr expr
  | Op1 "val \<Rightarrow> val" expr
  | Op2 "val \<Rightarrow> val \<Rightarrow> val" expr expr

datatype cmd =
    Eval expr
  | Assign sid key path expr
  | AssignComputed sid key expr
  | Delete sid key path key
  | Emit expr
  | If expr "cmd list" "cmd list"
  | Touch sid path
  | NewReactive "(string \<times> lit) list" "(string \<times> cmd list \<times> expr) list"
  | DefineProp sid key expr
  | DefineWork sid "cmd list"
  | DefineComputed sid key "(cmd list \<times> expr) option"
  | DefineSharedProp sid sid key key
  | Destroy sid

text \<open>
  \<^verbatim>\<open>class Work\<close>: the handler and \<^verbatim>\<open>_dependencies\<close>. The handlers the library builds
  itself are those of \<^verbatim>\<open>defineComputed\<close> (run the user's handler, store the result in
  \<^verbatim>\<open>_computeds\<close>) and of \<^verbatim>\<open>defineSharedProp\<close> (copy the source's Prop into the target's
  \<^verbatim>\<open>_props\<close>).
\<close>

datatype handler =
    UserW "cmd list"
  | ComputedW sid key "cmd list" expr
  | CopyW sid key sid key

record work =
  w_handler :: handler
  w_deps :: "path list"

text \<open>A property of \<^verbatim>\<open>this.prop\<close> or \<^verbatim>\<open>this.computed\<close>: a data property (created by a
  plain assignment; enumerable and configurable), or an accessor installed by
  \<^verbatim>\<open>Object.defineProperty\<close>, which is neither enumerable nor configurable unless it replaced
  a data property (the flag).\<close>

datatype pslot = Data val | OwnAcc bool key | SharedAcc bool key

datatype cslot = CData val | CAcc bool wid key

type_synonym listener = "nat \<times> string \<times> nat"

record store =
  prop_ns :: "(pkey \<times> pslot) list"
  computed_ns :: "(pkey \<times> cslot) list"
  priv_props :: "(pkey \<times> val) list"
  priv_computeds :: "(pkey \<times> val) list"
  priv_works :: "wid list"
  tickRunning :: bool
  successiveStack :: "wid list"
  editedPropsDuringTick :: "path list"
  editedPropsDuringWork :: "path list"
  accessedPropsDuringWork :: "path list"
  eventListeners :: "listener list"
  linkedPropInvalidations :: "(pkey \<times> (sid \<times> key) list) list"

text \<open>What the outside observes: the values written to the console, and each call of
  \<^verbatim>\<open>Work.dispatch\<close> (the one place that invokes a handler).\<close>

datatype event = Emitted val | Ran wid

record world =
  stores :: "store list"
  heap :: "hobj list"
  works :: "work list"
  trace :: "event list"
  dom_listeners :: "listener list"

datatype error =
    PropAlreadyDefined | SymbolProp | ComputedAlreadyDefined | HandlerNotFunction
  | SetComputed | SetExternalProp | InfiniteLoop | TypeError

text \<open>A call returns a value and the new world, throws (the world as the exception
  leaves it), or does not return within the given depth of nested calls.\<close>

datatype outcome = Done val world | Thrown error world | Fuel

fun bind :: "outcome \<Rightarrow> (val \<Rightarrow> world \<Rightarrow> outcome) \<Rightarrow> outcome" where
  "bind (Done v w) f = f v w"
| "bind (Thrown e w) f = Thrown e w"
| "bind Fuel f = Fuel"

text \<open>The methods that call each other recursively.\<close>

datatype container = NS sid | Obj val

datatype call =
    PropAccessed sid path
  | PropEdited sid path
  | DispatchWorks sid
  | DispatchWork sid wid
  | RunWork wid
  | CreateProxy val sid path "(ref \<times> ref) list"
  | GetDeep container path

text \<open>The engine only holds stores, objects and Works that exist. The lookups are total all
  the same (an empty store, an opaque object, a Work that does nothing), so that no
  statement rests on an unspecified value.\<close>

definition emptyStore :: store where
  "emptyStore = \<lparr>prop_ns = [], computed_ns = [], priv_props = [], priv_computeds = [],
     priv_works = [], tickRunning = False, successiveStack = [], editedPropsDuringTick = [],
     editedPropsDuringWork = [], accessedPropsDuringWork = [], eventListeners = [],
     linkedPropInvalidations = []\<rparr>"

definition theStore :: "world \<Rightarrow> sid \<Rightarrow> store" where
  "theStore w i = (if i < length (stores w) then stores w ! i else emptyStore)"

definition theObject :: "world \<Rightarrow> ref \<Rightarrow> hobj" where
  "theObject w r =
     (if r < length (heap w) then heap w ! r
      else \<lparr>o_kind = Instance, o_array = False, o_fields = []\<rparr>)"

definition theWork :: "world \<Rightarrow> wid \<Rightarrow> work" where
  "theWork w work =
     (if work < length (works w) then works w ! work else \<lparr>w_handler = UserW [], w_deps = []\<rparr>)"

definition updStore :: "sid \<Rightarrow> (store \<Rightarrow> store) \<Rightarrow> world \<Rightarrow> world" where
  "updStore i f w = w\<lparr>stores := (stores w)[i := f (stores w ! i)]\<rparr>"

definition propValue :: "world \<Rightarrow> sid \<Rightarrow> key \<Rightarrow> val" where
  "propValue w i name =
     (case alookup (priv_props (theStore w i)) (toPropertyKey name) of None \<Rightarrow> VUndef | Some v \<Rightarrow> v)"

definition computedValue :: "world \<Rightarrow> sid \<Rightarrow> key \<Rightarrow> val" where
  "computedValue w i name =
     (case alookup (priv_computeds (theStore w i)) (toPropertyKey name) of None \<Rightarrow> VUndef | Some v \<Rightarrow> v)"

definition fieldOf :: "hobj \<Rightarrow> pkey \<Rightarrow> val" where
  "fieldOf ob k = (case alookup (o_fields ob) k of None \<Rightarrow> VUndef | Some v \<Rightarrow> v)"

definition setField :: "ref \<Rightarrow> pkey \<Rightarrow> val \<Rightarrow> world \<Rightarrow> world" where
  "setField r k v w =
     w\<lparr>heap := (heap w)[r := (heap w ! r)\<lparr>o_fields := aupdate k v (o_fields (heap w ! r))\<rparr>]\<rparr>"

definition deleteField :: "ref \<Rightarrow> pkey \<Rightarrow> world \<Rightarrow> world" where
  "deleteField r k w =
     w\<lparr>heap := (heap w)[r := (heap w ! r)\<lparr>o_fields := adelete k (o_fields (heap w ! r))\<rparr>]\<rparr>"

section \<open>The engine\<close>

text \<open>Every method below takes, as \<open>rec\<close>, the function that performs a nested call.\<close>

type_synonym recf = "call \<Rightarrow> world \<Rightarrow> outcome"

subsection \<open>\<^verbatim>\<open>_propAccessed\<close>\<close>

definition linkedOf :: "world \<Rightarrow> sid \<Rightarrow> path \<Rightarrow> (sid \<times> key) list" where
  "linkedOf w i propPath =
     (case alookup (linkedPropInvalidations (theStore w i)) (headKey propPath) of
        None \<Rightarrow> []
      | Some ls \<Rightarrow> ls)"

fun forwardLinked :: "recf \<Rightarrow> (sid \<Rightarrow> path \<Rightarrow> call) \<Rightarrow> (sid \<times> key) list \<Rightarrow> path \<Rightarrow> world \<Rightarrow> outcome" where
  "forwardLinked rec method [] rest w = Done VUndef w"
| "forwardLinked rec method ((targetReactive, targetPropName) # ls) rest w =
     bind (rec (method targetReactive (targetPropName # rest)) w)
       (\<lambda>_ w'. forwardLinked rec method ls rest w')"

definition recordAccess :: "sid \<Rightarrow> path \<Rightarrow> world \<Rightarrow> world" where
  "recordAccess i propPath w =
     (if \<not> propPathExistsIn propPath (accessedPropsDuringWork (theStore w i))
      then updStore i (\<lambda>s. s\<lparr>accessedPropsDuringWork := accessedPropsDuringWork s @ [propPath]\<rparr>) w
      else w)"

definition propAccessed :: "recf \<Rightarrow> sid \<Rightarrow> path \<Rightarrow> world \<Rightarrow> outcome" where
  "propAccessed rec i propPath w =
     forwardLinked rec PropAccessed (linkedOf (recordAccess i propPath w) i propPath) (tl propPath)
       (recordAccess i propPath w)"

subsection \<open>Reading a member\<close>

text \<open>The getter that \<^verbatim>\<open>defineProp\<close> and \<^verbatim>\<open>defineSharedProp\<close> install on \<^verbatim>\<open>this.prop\<close>.\<close>

definition propGetter :: "recf \<Rightarrow> sid \<Rightarrow> key \<Rightarrow> world \<Rightarrow> outcome" where
  "propGetter rec i propName w =
     bind (propAccessed rec i [propName] w) (\<lambda>_ w'. Done (propValue w' i propName) w')"

definition namespaceGet :: "recf \<Rightarrow> sid \<Rightarrow> pkey \<Rightarrow> world \<Rightarrow> outcome" where
  "namespaceGet rec i k w =
     (case alookup (prop_ns (theStore w i)) k of
        None \<Rightarrow> Done VUndef w
      | Some (Data v) \<Rightarrow> Done v w
      | Some (OwnAcc c propName) \<Rightarrow> propGetter rec i propName w
      | Some (SharedAcc c propName) \<Rightarrow> propGetter rec i propName w)"

text \<open>\<^verbatim>\<open>obj[key]\<close> on a value; on a proxy this is the \<^verbatim>\<open>get\<close> trap of
  \<^verbatim>\<open>_createObjectProxy\<close>.\<close>

definition proxyGet :: "recf \<Rightarrow> ref \<Rightarrow> sid \<Rightarrow> path \<Rightarrow> pkey \<Rightarrow> world \<Rightarrow> outcome" where
  "proxyGet rec r i prefix k w =
     bind (if alookup (o_fields (theObject w r)) k \<noteq> None
           then propAccessed rec i (prefix @ [ofPropertyKey k]) w
           else Done VUndef w)
       (\<lambda>_ w'. Done (fieldOf (theObject w' r) k) w')"

definition memberGet :: "recf \<Rightarrow> val \<Rightarrow> pkey \<Rightarrow> world \<Rightarrow> outcome" where
  "memberGet rec v k w =
     (case v of
        VRef r \<Rightarrow>
          (case o_kind (theObject w r) of
             Proxied i prefix parents \<Rightarrow> proxyGet rec r i prefix k w
           | Plain \<Rightarrow> Done (fieldOf (theObject w r) k) w
           | Instance \<Rightarrow> Done VUndef w)
      | VUndef \<Rightarrow> Thrown TypeError w
      | VNull \<Rightarrow> Thrown TypeError w
      | _ \<Rightarrow> Done VUndef w)"

definition readKey :: "recf \<Rightarrow> container \<Rightarrow> pkey \<Rightarrow> world \<Rightarrow> outcome" where
  "readKey rec obj k w =
     (case obj of NS i \<Rightarrow> namespaceGet rec i k w | Obj v \<Rightarrow> memberGet rec v k w)"

subsection \<open>\<^verbatim>\<open>_getDeep\<close>\<close>

definition getDeep :: "recf \<Rightarrow> container \<Rightarrow> path \<Rightarrow> world \<Rightarrow> outcome" where
  "getDeep rec obj keys w =
     (if length keys = 1 then readKey rec obj (headKey keys) w
      else bind (readKey rec obj (headKey keys) w)
             (\<lambda>next w'. if isObject next then rec (GetDeep (Obj next) (tl keys)) w'
                         else Done VUndef w'))"

subsection \<open>\<^verbatim>\<open>_createObjectProxy\<close>\<close>

definition setProperty :: "recf \<Rightarrow> ref \<Rightarrow> pkey \<Rightarrow> val \<Rightarrow> sid \<Rightarrow> path \<Rightarrow> (ref \<times> ref) list \<Rightarrow> world \<Rightarrow> outcome" where
  "setProperty rec obj k value i prefix currentPath w =
     (if isObject value
      then bind (rec (CreateProxy value i (prefix @ [ofPropertyKey k]) currentPath) w)
             (\<lambda>p w'. Done VUndef (setField obj k p w'))
      else Done VUndef (setField obj k value w))"

fun copyKeys :: "recf \<Rightarrow> pkey list \<Rightarrow> val \<Rightarrow> ref \<Rightarrow> sid \<Rightarrow> path \<Rightarrow> (ref \<times> ref) list \<Rightarrow> world \<Rightarrow> outcome" where
  "copyKeys rec [] source local i prefix currentPath w = Done VUndef w"
| "copyKeys rec (k # ks) source local i prefix currentPath w =
     bind (memberGet rec source k w)
       (\<lambda>value w1. bind (setProperty rec local k value i prefix currentPath w1)
          (\<lambda>_ w2. copyKeys rec ks source local i prefix currentPath w2))"

fun isStringKey :: "pkey \<Rightarrow> bool" where
  "isStringKey (PStr s) = True"
| "isStringKey (PSym n) = False"

text \<open>\<^verbatim>\<open>Object.keys\<close>: the enumerable own properties with a string key.\<close>

definition objectKeys :: "(pkey \<times> 'a) list \<Rightarrow> pkey list" where
  "objectKeys kvs = filter isStringKey (map fst kvs)"

definition createObjectProxy :: "recf \<Rightarrow> val \<Rightarrow> sid \<Rightarrow> path \<Rightarrow> (ref \<times> ref) list \<Rightarrow> world \<Rightarrow> outcome" where
  "createObjectProxy rec source i prefix parents w =
     (case source of
        VRef r \<Rightarrow>
          (case alookup parents r of
             Some p \<Rightarrow> Done (VRef p) w
           | None \<Rightarrow>
               if o_kind (theObject w r) = Instance then Done source w
               else bind
                 (copyKeys rec (objectKeys (o_fields (theObject w r))) source (length (heap w)) i prefix
                    (parents @ [(r, length (heap w))])
                    (w\<lparr>heap := heap w @
                        [\<lparr>o_kind = Proxied i prefix (parents @ [(r, length (heap w))]),
                          o_array = o_array (theObject w r), o_fields = []\<rparr>]\<rparr>))
                 (\<lambda>_ w'. Done (VRef (length (heap w))) w'))
      | _ \<Rightarrow> Done source w)"

subsection \<open>\<^verbatim>\<open>_propEdited\<close>\<close>

definition recordEdit :: "sid \<Rightarrow> path \<Rightarrow> world \<Rightarrow> world" where
  "recordEdit i propPath w =
     updStore i (\<lambda>s. s\<lparr>
       editedPropsDuringTick :=
         (if \<not> propPathExistsIn propPath (editedPropsDuringTick s)
          then editedPropsDuringTick s @ [propPath] else editedPropsDuringTick s),
       editedPropsDuringWork :=
         (if \<not> propPathExistsIn propPath (editedPropsDuringWork s)
          then editedPropsDuringWork s @ [propPath] else editedPropsDuringWork s)\<rparr>) w"

definition propEdited :: "recf \<Rightarrow> sid \<Rightarrow> path \<Rightarrow> world \<Rightarrow> outcome" where
  "propEdited rec i propPath w =
     bind (if \<not> tickRunning (theStore (recordEdit i propPath w) i)
           then rec (DispatchWorks i) (recordEdit i propPath w)
           else Done VUndef (recordEdit i propPath w))
       (\<lambda>_ w'. forwardLinked rec PropEdited (linkedOf w' i propPath) (tl propPath) w')"

subsection \<open>The traps \<^verbatim>\<open>set\<close> and \<^verbatim>\<open>deleteProperty\<close> of a proxy\<close>

definition proxySet :: "recf \<Rightarrow> ref \<Rightarrow> sid \<Rightarrow> path \<Rightarrow> (ref \<times> ref) list \<Rightarrow> pkey \<Rightarrow> val \<Rightarrow> world \<Rightarrow> outcome" where
  "proxySet rec r i prefix currentPath k value w =
     (if value \<noteq> fieldOf (theObject w r) k
      then bind (setProperty rec r k value i prefix currentPath w)
             (\<lambda>_ w'. if alookup (o_fields (theObject w r)) k = None
                      then propEdited rec i prefix w'
                      else propEdited rec i (prefix @ [ofPropertyKey k]) w')
      else Done VUndef w)"

definition proxyDelete :: "recf \<Rightarrow> ref \<Rightarrow> sid \<Rightarrow> path \<Rightarrow> pkey \<Rightarrow> world \<Rightarrow> outcome" where
  "proxyDelete rec r i prefix k w =
     propEdited rec i (prefix @ [ofPropertyKey k]) (deleteField r k w)"

text \<open>\<^verbatim>\<open>obj[key] = value\<close> and \<^verbatim>\<open>delete obj[key]\<close> on a value, in strict mode.\<close>

definition memberSet :: "recf \<Rightarrow> val \<Rightarrow> pkey \<Rightarrow> val \<Rightarrow> world \<Rightarrow> outcome" where
  "memberSet rec base k value w =
     (case base of
        VRef r \<Rightarrow>
          (case o_kind (theObject w r) of
             Proxied i prefix currentPath \<Rightarrow> proxySet rec r i prefix currentPath k value w
           | Plain \<Rightarrow> Done VUndef (setField r k value w)
           | Instance \<Rightarrow> Done VUndef w)
      | _ \<Rightarrow> Thrown TypeError w)"

definition memberDelete :: "recf \<Rightarrow> val \<Rightarrow> pkey \<Rightarrow> world \<Rightarrow> outcome" where
  "memberDelete rec base k w =
     (case base of
        VRef r \<Rightarrow>
          (case o_kind (theObject w r) of
             Proxied i prefix currentPath \<Rightarrow> proxyDelete rec r i prefix k w
           | Plain \<Rightarrow> Done VUndef (deleteField r k w)
           | Instance \<Rightarrow> Done VUndef w)
      | VUndef \<Rightarrow> Thrown TypeError w
      | VNull \<Rightarrow> Thrown TypeError w
      | _ \<Rightarrow> Done VUndef w)"

subsection \<open>\<^verbatim>\<open>defineProp\<close>\<close>

text \<open>The closure \<^verbatim>\<open>set\<close>, and the setter installed on \<^verbatim>\<open>this.prop\<close>.\<close>

definition setProp :: "recf \<Rightarrow> sid \<Rightarrow> key \<Rightarrow> val \<Rightarrow> world \<Rightarrow> outcome" where
  "setProp rec i propName value w =
     (if isObject value
      then bind (createObjectProxy rec value i [propName] [] w)
             (\<lambda>p w'. Done VUndef
                (updStore i (\<lambda>s. s\<lparr>priv_props := aupdate (toPropertyKey propName) p (priv_props s)\<rparr>) w'))
      else Done VUndef
             (updStore i (\<lambda>s. s\<lparr>priv_props := aupdate (toPropertyKey propName) value (priv_props s)\<rparr>) w))"

definition propSetter :: "recf \<Rightarrow> sid \<Rightarrow> key \<Rightarrow> val \<Rightarrow> world \<Rightarrow> outcome" where
  "propSetter rec i propName newValue w =
     (if propValue w i propName \<noteq> newValue
      then bind (setProp rec i propName newValue w) (\<lambda>_ w'. propEdited rec i [propName] w')
      else Done VUndef w)"

definition namespaceSet :: "recf \<Rightarrow> sid \<Rightarrow> pkey \<Rightarrow> val \<Rightarrow> world \<Rightarrow> outcome" where
  "namespaceSet rec i k value w =
     (case alookup (prop_ns (theStore w i)) k of
        Some (OwnAcc c propName) \<Rightarrow> propSetter rec i propName value w
      | Some (SharedAcc c propName) \<Rightarrow> Thrown SetExternalProp w
      | _ \<Rightarrow> Done VUndef (updStore i (\<lambda>s. s\<lparr>prop_ns := aupdate k (Data value) (prop_ns s)\<rparr>) w))"

text \<open>\<^verbatim>\<open>Object.defineProperty(obj, key, { get, set })\<close>: a new property is neither
  enumerable nor configurable; a configurable property is replaced and keeps its flags; a
  property that is not configurable makes the call throw a \<^verbatim>\<open>TypeError\<close> (\<open>None\<close>).\<close>

fun pconfigurable :: "pslot \<Rightarrow> bool" where
  "pconfigurable (Data v) = True"
| "pconfigurable (OwnAcc c n) = c"
| "pconfigurable (SharedAcc c n) = c"

fun cconfigurable :: "cslot \<Rightarrow> bool" where
  "cconfigurable (CData v) = True"
| "cconfigurable (CAcc c work n) = c"

definition defineProperty :: "('s \<Rightarrow> bool) \<Rightarrow> (pkey \<times> 's) list \<Rightarrow> pkey \<Rightarrow> (bool \<Rightarrow> 's) \<Rightarrow> (pkey \<times> 's) list option" where
  "defineProperty configurable obj k accessor =
     (case alookup obj k of
        None \<Rightarrow> Some (obj @ [(k, accessor False)])
      | Some old \<Rightarrow> if configurable old then Some (aupdate k (accessor True) obj) else None)"

fun isSymbol :: "key \<Rightarrow> bool" where
  "isSymbol (KSym n) = True"
| "isSymbol k = False"

definition defineProp :: "recf \<Rightarrow> sid \<Rightarrow> key \<Rightarrow> val \<Rightarrow> world \<Rightarrow> outcome" where
  "defineProp rec i propName value w =
     (if propValue w i propName \<noteq> VUndef then Thrown PropAlreadyDefined w
      else if isSymbol propName then Thrown SymbolProp w
      else bind (setProp rec i propName value w)
        (\<lambda>_ w'. case defineProperty pconfigurable (prop_ns (theStore w' i)) (toPropertyKey propName)
                        (\<lambda>c. OwnAcc c propName) of
                   None \<Rightarrow> Thrown TypeError w'
                 | Some ns \<Rightarrow> Done VUndef (updStore i (\<lambda>s. s\<lparr>prop_ns := ns\<rparr>) w')))"

subsection \<open>The accessor of a Computed (\<^verbatim>\<open>defineComputed\<close>)\<close>

fun triggerGetters :: "recf \<Rightarrow> sid \<Rightarrow> path list \<Rightarrow> world \<Rightarrow> outcome" where
  "triggerGetters rec i [] w = Done VUndef w"
| "triggerGetters rec i (dependency # ds) w =
     bind (getDeep rec (NS i) dependency w) (\<lambda>_ w'. triggerGetters rec i ds w')"

definition needsUpdate :: "world \<Rightarrow> sid \<Rightarrow> wid \<Rightarrow> path list" where
  "needsUpdate w i work =
     filter (\<lambda>dependency. propPathExistsIn dependency (editedPropsDuringTick (theStore w i)))
       (w_deps (theWork w work))"

definition computedGetter :: "recf \<Rightarrow> sid \<Rightarrow> wid \<Rightarrow> key \<Rightarrow> world \<Rightarrow> outcome" where
  "computedGetter rec i work computedName w =
     bind (if needsUpdate w i work \<noteq> [] then rec (RunWork work) w else Done VUndef w)
       (\<lambda>_ w1. bind (triggerGetters rec i (w_deps (theWork w work)) w1)
          (\<lambda>_ w2. Done (computedValue w2 i computedName) w2))"

definition computedNamespaceGet :: "recf \<Rightarrow> sid \<Rightarrow> pkey \<Rightarrow> world \<Rightarrow> outcome" where
  "computedNamespaceGet rec i k w =
     (case alookup (computed_ns (theStore w i)) k of
        None \<Rightarrow> Done VUndef w
      | Some (CData v) \<Rightarrow> Done v w
      | Some (CAcc c work computedName) \<Rightarrow> computedGetter rec i work computedName w)"

definition computedNamespaceSet :: "sid \<Rightarrow> pkey \<Rightarrow> val \<Rightarrow> world \<Rightarrow> outcome" where
  "computedNamespaceSet i k value w =
     (case alookup (computed_ns (theStore w i)) k of
        Some (CAcc c work computedName) \<Rightarrow> Thrown SetComputed w
      | _ \<Rightarrow> Done VUndef (updStore i (\<lambda>s. s\<lparr>computed_ns := aupdate k (CData value) (computed_ns s)\<rparr>) w))"

subsection \<open>Expressions and statements of the calling code\<close>

definition validStore :: "world \<Rightarrow> sid \<Rightarrow> bool" where
  "validStore w i = (i < length (stores w))"

fun readPath :: "recf \<Rightarrow> val \<Rightarrow> path \<Rightarrow> world \<Rightarrow> outcome" where
  "readPath rec v [] w = Done v w"
| "readPath rec v (k # ks) w =
     bind (memberGet rec v (toPropertyKey k) w) (\<lambda>v' w'. readPath rec v' ks w')"

definition readProp :: "recf \<Rightarrow> sid \<Rightarrow> key \<Rightarrow> path \<Rightarrow> world \<Rightarrow> outcome" where
  "readProp rec i k ks w =
     (if \<not> validStore w i then Thrown TypeError w
      else bind (namespaceGet rec i (toPropertyKey k) w) (\<lambda>v w'. readPath rec v ks w'))"

fun eval :: "recf \<Rightarrow> expr \<Rightarrow> world \<Rightarrow> outcome" where
  "eval rec (Lit l) w = (case evalLit l (heap w) of (v, h) \<Rightarrow> Done v (w\<lparr>heap := h\<rparr>))"
| "eval rec (PropE i k ks) w = readProp rec i k ks w"
| "eval rec (CompE i k) w =
     (if \<not> validStore w i then Thrown TypeError w
      else computedNamespaceGet rec i (toPropertyKey k) w)"
| "eval rec (AndE a b) w =
     bind (eval rec a w) (\<lambda>v w'. if truthy v then eval rec b w' else Done v w')"
| "eval rec (Op1 f a) w = bind (eval rec a w) (\<lambda>v w'. Done (f v) w')"
| "eval rec (Op2 f a b) w =
     bind (eval rec a w) (\<lambda>v w1. bind (eval rec b w1) (\<lambda>v' w2. Done (f v v') w2))"

text \<open>\<^verbatim>\<open>store.prop[k][ks...] = e\<close>: the object assigned into is evaluated first, then the
  right-hand side.\<close>

definition assign :: "recf \<Rightarrow> sid \<Rightarrow> key \<Rightarrow> path \<Rightarrow> expr \<Rightarrow> world \<Rightarrow> outcome" where
  "assign rec i k ks e w =
     (if \<not> validStore w i then Thrown TypeError w
      else if ks = [] then bind (eval rec e w) (\<lambda>v w'. namespaceSet rec i (toPropertyKey k) v w')
      else bind (readProp rec i k (butlast ks) w)
             (\<lambda>base w1. bind (eval rec e w1)
                (\<lambda>v w2. memberSet rec base (toPropertyKey (last ks)) v w2)))"

definition assignComputed :: "recf \<Rightarrow> sid \<Rightarrow> key \<Rightarrow> expr \<Rightarrow> world \<Rightarrow> outcome" where
  "assignComputed rec i k e w =
     (if \<not> validStore w i then Thrown TypeError w
      else bind (eval rec e w) (\<lambda>v w'. computedNamespaceSet i (toPropertyKey k) v w'))"

definition deleteMember :: "recf \<Rightarrow> sid \<Rightarrow> key \<Rightarrow> path \<Rightarrow> key \<Rightarrow> world \<Rightarrow> outcome" where
  "deleteMember rec i k ks k' w =
     bind (readProp rec i k ks w) (\<lambda>base w'. memberDelete rec base (toPropertyKey k') w')"

definition emit :: "recf \<Rightarrow> expr \<Rightarrow> world \<Rightarrow> outcome" where
  "emit rec e w = bind (eval rec e w) (\<lambda>v w'. Done VUndef (w'\<lparr>trace := trace w' @ [Emitted v]\<rparr>))"

text \<open>\<^verbatim>\<open>touch\<close>: a single key is the path of that key.\<close>

definition touch :: "recf \<Rightarrow> sid \<Rightarrow> path \<Rightarrow> world \<Rightarrow> outcome" where
  "touch rec i propPath w =
     (if \<not> validStore w i then Thrown TypeError w else propEdited rec i propPath w)"

subsection \<open>\<^verbatim>\<open>defineWork\<close>, \<^verbatim>\<open>defineComputed\<close>, \<^verbatim>\<open>defineSharedProp\<close>\<close>

definition newWork :: "handler \<Rightarrow> world \<Rightarrow> world" where
  "newWork h w = w\<lparr>works := works w @ [\<lparr>w_handler = h, w_deps = []\<rparr>]\<rparr>"

definition pushWork :: "sid \<Rightarrow> wid \<Rightarrow> world \<Rightarrow> world" where
  "pushWork i work w = updStore i (\<lambda>s. s\<lparr>priv_works := priv_works s @ [work]\<rparr>) w"

definition defineWork :: "recf \<Rightarrow> sid \<Rightarrow> cmd list \<Rightarrow> world \<Rightarrow> outcome" where
  "defineWork rec i handler w =
     (if \<not> validStore w i then Thrown TypeError w
      else rec (DispatchWork i (length (works w))) (pushWork i (length (works w)) (newWork (UserW handler) w)))"

definition defineComputed :: "recf \<Rightarrow> sid \<Rightarrow> key \<Rightarrow> (cmd list \<times> expr) option \<Rightarrow> world \<Rightarrow> outcome" where
  "defineComputed rec i computedName handler w =
     (if \<not> validStore w i then Thrown TypeError w
      else if computedValue w i computedName \<noteq> VUndef then Thrown ComputedAlreadyDefined w
      else case handler of
        None \<Rightarrow> Thrown HandlerNotFunction w
      | Some (body, result) \<Rightarrow>
          (case defineProperty cconfigurable (computed_ns (theStore w i)) (toPropertyKey computedName)
                  (\<lambda>c. CAcc c (length (works w)) computedName) of
             None \<Rightarrow>
               Thrown TypeError
                 (pushWork i (length (works w)) (newWork (ComputedW i computedName body result) w))
           | Some ns \<Rightarrow>
               rec (DispatchWork i (length (works w)))
                 (updStore i (\<lambda>s. s\<lparr>computed_ns := ns\<rparr>)
                    (pushWork i (length (works w)) (newWork (ComputedW i computedName body result) w)))))"

text \<open>\<^verbatim>\<open>_linkPropInvalidation\<close>, called on the source store.\<close>

definition linkPropInvalidation :: "sid \<Rightarrow> sid \<Rightarrow> key \<Rightarrow> key \<Rightarrow> world \<Rightarrow> world" where
  "linkPropInvalidation i targetReactive sourcePropName targetPropName w =
     updStore i (\<lambda>s. s\<lparr>linkedPropInvalidations :=
       aupdate (toPropertyKey sourcePropName)
         ((case alookup (linkedPropInvalidations s) (toPropertyKey sourcePropName) of
             None \<Rightarrow> [] | Some ls \<Rightarrow> ls) @ [(targetReactive, targetPropName)])
         (linkedPropInvalidations s)\<rparr>) w"

text \<open>\<^verbatim>\<open>defineSharedProp\<close>, called on the target store \<open>i\<close>.\<close>

definition defineSharedProp :: "recf \<Rightarrow> sid \<Rightarrow> sid \<Rightarrow> key \<Rightarrow> key \<Rightarrow> world \<Rightarrow> outcome" where
  "defineSharedProp rec i sourceReactive targetPropName sourcePropName w =
     (if \<not> validStore w i then Thrown TypeError w
      else if \<not> validStore w sourceReactive then Thrown TypeError w
      else if propValue w i targetPropName \<noteq> VUndef then Thrown PropAlreadyDefined w
      else if isSymbol targetPropName then Thrown SymbolProp w
      else case defineProperty pconfigurable (prop_ns (theStore w i)) (toPropertyKey targetPropName)
                  (\<lambda>c. SharedAcc c targetPropName) of
             None \<Rightarrow>
               Thrown TypeError
                 (linkPropInvalidation sourceReactive i sourcePropName targetPropName
                    (pushWork sourceReactive (length (works w))
                       (newWork (CopyW i targetPropName sourceReactive sourcePropName) w)))
           | Some ns \<Rightarrow>
               rec (DispatchWork sourceReactive (length (works w)))
                 (updStore i (\<lambda>s. s\<lparr>prop_ns := ns\<rparr>)
                    (linkPropInvalidation sourceReactive i sourcePropName targetPropName
                       (pushWork sourceReactive (length (works w))
                          (newWork (CopyW i targetPropName sourceReactive sourcePropName) w)))))"

subsection \<open>\<^verbatim>\<open>destroy\<close>\<close>

fun enumerable :: "pslot \<Rightarrow> bool" where
  "enumerable (Data v) = True"
| "enumerable (OwnAcc c n) = c"
| "enumerable (SharedAcc c n) = c"

text \<open>\<^verbatim>\<open>removeEventListener\<close> on the listeners attached to the elements of the page.\<close>

fun removeListeners :: "listener list \<Rightarrow> listener list \<Rightarrow> listener list" where
  "removeListeners [] attached = attached"
| "removeListeners (l # ls) attached = removeListeners ls (removeAll l attached)"

definition destroy :: "sid \<Rightarrow> world \<Rightarrow> world" where
  "destroy i w =
     (updStore i (\<lambda>s. s\<lparr>
        prop_ns := filter (\<lambda>(k, slot). \<not> (isStringKey k \<and> enumerable slot)) (prop_ns s),
        priv_props := filter (\<lambda>(k, v). \<not> isStringKey k) (priv_props s),
        priv_works := [],
        successiveStack := [],
        editedPropsDuringTick := [],
        editedPropsDuringWork := [],
        accessedPropsDuringWork := []\<rparr>) w)
     \<lparr>dom_listeners := removeListeners (eventListeners (theStore w i)) (dom_listeners w)\<rparr>"

subsection \<open>The constructor\<close>

fun definePropsOf :: "recf \<Rightarrow> sid \<Rightarrow> (string \<times> lit) list \<Rightarrow> world \<Rightarrow> outcome" where
  "definePropsOf rec i [] w = Done VUndef w"
| "definePropsOf rec i ((propName, l) # ps) w =
     (case evalLit l (heap w) of (v, h) \<Rightarrow>
        bind (defineProp rec i (KStr propName) v (w\<lparr>heap := h\<rparr>))
          (\<lambda>_ w'. definePropsOf rec i ps w'))"

fun defineComputeds :: "recf \<Rightarrow> sid \<Rightarrow> (string \<times> cmd list \<times> expr) list \<Rightarrow> world \<Rightarrow> outcome" where
  "defineComputeds rec i [] w = Done VUndef w"
| "defineComputeds rec i ((computedName, handler) # hs) w =
     bind (defineComputed rec i (KStr computedName) (Some handler) w)
       (\<lambda>_ w'. defineComputeds rec i hs w')"

definition newReactive :: "recf \<Rightarrow> (string \<times> lit) list \<Rightarrow> (string \<times> cmd list \<times> expr) list \<Rightarrow> world \<Rightarrow> outcome" where
  "newReactive rec props computeds w =
     bind (definePropsOf rec (length (stores w)) props (w\<lparr>stores := stores w @ [emptyStore]\<rparr>))
       (\<lambda>_ w'. defineComputeds rec (length (stores w)) computeds w')"

subsection \<open>Running statements\<close>

fun exec :: "recf \<Rightarrow> cmd list \<Rightarrow> world \<Rightarrow> outcome"
  and execCmd :: "recf \<Rightarrow> cmd \<Rightarrow> world \<Rightarrow> outcome" where
  "exec rec [] w = Done VUndef w"
| "exec rec (c # cs) w = bind (execCmd rec c w) (\<lambda>_ w'. exec rec cs w')"
| "execCmd rec (Eval e) w = eval rec e w"
| "execCmd rec (Assign i k ks e) w = assign rec i k ks e w"
| "execCmd rec (AssignComputed i k e) w = assignComputed rec i k e w"
| "execCmd rec (Delete i k ks k') w = deleteMember rec i k ks k' w"
| "execCmd rec (Emit e) w = emit rec e w"
| "execCmd rec (If e a b) w =
     bind (eval rec e w) (\<lambda>v w'. if truthy v then exec rec a w' else exec rec b w')"
| "execCmd rec (Touch i propPath) w = touch rec i propPath w"
| "execCmd rec (NewReactive props computeds) w = newReactive rec props computeds w"
| "execCmd rec (DefineProp i k e) w =
     (if \<not> validStore w i then Thrown TypeError w
      else bind (eval rec e w) (\<lambda>v w'. defineProp rec i k v w'))"
| "execCmd rec (DefineWork i handler) w = defineWork rec i handler w"
| "execCmd rec (DefineComputed i k handler) w = defineComputed rec i k handler w"
| "execCmd rec (DefineSharedProp i sourceReactive targetPropName sourcePropName) w =
     defineSharedProp rec i sourceReactive targetPropName sourcePropName w"
| "execCmd rec (Destroy i) w =
     (if \<not> validStore w i then Thrown TypeError w else Done VUndef (destroy i w))"

subsection \<open>\<^verbatim>\<open>Work.dispatch\<close>\<close>

definition runWork :: "recf \<Rightarrow> wid \<Rightarrow> world \<Rightarrow> outcome" where
  "runWork rec work w =
     (case w_handler (theWork w work) of
        UserW body \<Rightarrow> exec rec body (w\<lparr>trace := trace w @ [Ran work]\<rparr>)
      | ComputedW i computedName body result \<Rightarrow>
          bind (exec rec body (w\<lparr>trace := trace w @ [Ran work]\<rparr>))
            (\<lambda>_ w1. bind (eval rec result w1)
               (\<lambda>v w2. Done VUndef
                  (updStore i (\<lambda>s. s\<lparr>priv_computeds :=
                     aupdate (toPropertyKey computedName) v (priv_computeds s)\<rparr>) w2)))
      | CopyW i targetPropName sourceReactive sourcePropName \<Rightarrow>
          bind (namespaceGet rec sourceReactive (toPropertyKey sourcePropName)
                  (w\<lparr>trace := trace w @ [Ran work]\<rparr>))
            (\<lambda>v w1. Done VUndef
               (updStore i (\<lambda>s. s\<lparr>priv_props :=
                  aupdate (toPropertyKey targetPropName) v (priv_props s)\<rparr>) w1)))"

subsection \<open>\<^verbatim>\<open>_dispatchWork\<close>\<close>

definition clearWorkBuffers :: "sid \<Rightarrow> world \<Rightarrow> world" where
  "clearWorkBuffers i w =
     updStore i (\<lambda>s. s\<lparr>accessedPropsDuringWork := [], editedPropsDuringWork := []\<rparr>) w"

definition inferDependencies :: "path list \<Rightarrow> path list \<Rightarrow> path list" where
  "inferDependencies accessedProps editedProps =
     filter (\<lambda>propPath. \<not> propPathExistsIn propPath editedProps) accessedProps"

definition declareDependencies :: "wid \<Rightarrow> path list \<Rightarrow> world \<Rightarrow> world" where
  "declareDependencies work dependencies w =
     w\<lparr>works := (works w)[work := (works w ! work)\<lparr>w_deps := dependencies\<rparr>]\<rparr>"

definition dispatchWork :: "recf \<Rightarrow> sid \<Rightarrow> wid \<Rightarrow> world \<Rightarrow> outcome" where
  "dispatchWork rec i work w =
     bind (runWork rec work (clearWorkBuffers i w))
       (\<lambda>_ w'. Done VUndef
          (updStore i (\<lambda>s. s\<lparr>successiveStack := successiveStack s @ [work]\<rparr>)
             (declareDependencies work
                (inferDependencies (accessedPropsDuringWork (theStore w' i))
                   (editedPropsDuringWork (theStore w' i)))
                (clearWorkBuffers i w'))))"

subsection \<open>\<^verbatim>\<open>_dispatchWorks\<close>\<close>

fun dispatchEach :: "recf \<Rightarrow> sid \<Rightarrow> wid list \<Rightarrow> world \<Rightarrow> outcome" where
  "dispatchEach rec i [] w = Done VUndef w"
| "dispatchEach rec i (work # dependentWorks) w =
     bind (rec (DispatchWork i work) w) (\<lambda>_ w'. dispatchEach rec i dependentWorks w')"

fun dispatchInvalidated :: "recf \<Rightarrow> sid \<Rightarrow> rdeps \<Rightarrow> path list \<Rightarrow> world \<Rightarrow> outcome" where
  "dispatchInvalidated rec i reversedDependencies [] w = Done VUndef w"
| "dispatchInvalidated rec i reversedDependencies (propPath # invalidatedProps) w =
     bind (dispatchEach rec i (recursiveGet reversedDependencies propPath) w)
       (\<lambda>_ w'. dispatchInvalidated rec i reversedDependencies invalidatedProps w')"

definition registry :: "world \<Rightarrow> sid \<Rightarrow> (wid \<times> path list) list" where
  "registry w i = map (\<lambda>work. (work, w_deps (theWork w work))) (priv_works (theStore w i))"

definition startTick :: "sid \<Rightarrow> world \<Rightarrow> world" where
  "startTick i w = updStore i (\<lambda>s. s\<lparr>tickRunning := True, editedPropsDuringTick := []\<rparr>) w"

definition dispatchWorks :: "recf \<Rightarrow> sid \<Rightarrow> world \<Rightarrow> outcome" where
  "dispatchWorks rec i w =
     (if checkLoopInStack (successiveStack (theStore w i)) then Thrown InfiniteLoop (startTick i w)
      else bind (dispatchInvalidated rec i (getReversedWorksDependencies (registry w i))
                   (editedPropsDuringTick (theStore w i)) (startTick i w))
             (\<lambda>_ w'. if editedPropsDuringTick (theStore w' i) \<noteq> []
                      then rec (DispatchWorks i) (updStore i (\<lambda>s. s\<lparr>tickRunning := False\<rparr>) w')
                      else Done VUndef
                        (updStore i (\<lambda>s. s\<lparr>tickRunning := False, successiveStack := []\<rparr>) w')))"

subsection \<open>Nested calls\<close>

definition step :: "recf \<Rightarrow> call \<Rightarrow> world \<Rightarrow> outcome" where
  "step rec c w =
     (case c of
        PropAccessed i propPath \<Rightarrow> propAccessed rec i propPath w
      | PropEdited i propPath \<Rightarrow> propEdited rec i propPath w
      | DispatchWorks i \<Rightarrow> dispatchWorks rec i w
      | DispatchWork i work \<Rightarrow> dispatchWork rec i work w
      | RunWork work \<Rightarrow> runWork rec work w
      | CreateProxy source i prefix parents \<Rightarrow> createObjectProxy rec source i prefix parents w
      | GetDeep obj keys \<Rightarrow> getDeep rec obj keys w)"

text \<open>\<open>run n\<close> performs a call whose nested calls are at most \<open>n\<close> deep.\<close>

fun run :: "nat \<Rightarrow> call \<Rightarrow> world \<Rightarrow> outcome" where
  "run 0 c w = Fuel"
| "run (Suc n) c w = step (run n) c w"

definition emptyWorld :: world where
  "emptyWorld = \<lparr>stores = [], heap = [], works = [], trace = [], dom_listeners = []\<rparr>"

text \<open>A script of the caller, run from the empty world.\<close>

definition script :: "nat \<Rightarrow> cmd list \<Rightarrow> outcome" where
  "script n cs = exec (run n) cs emptyWorld"

section \<open>Observations and scenarios\<close>

definition finalWorld :: "outcome \<Rightarrow> world option" where
  "finalWorld r = (case r of Done v w \<Rightarrow> Some w | Thrown e w \<Rightarrow> Some w | Fuel \<Rightarrow> None)"

definition thrown :: "outcome \<Rightarrow> error option" where
  "thrown r = (case r of Done v w \<Rightarrow> None | Thrown e w \<Rightarrow> Some e | Fuel \<Rightarrow> None)"

definition returned :: "outcome \<Rightarrow> bool" where
  "returned r = (case r of Done v w \<Rightarrow> True | Thrown e w \<Rightarrow> False | Fuel \<Rightarrow> False)"

definition traceOf :: "outcome \<Rightarrow> event list" where
  "traceOf r = (case finalWorld r of None \<Rightarrow> [] | Some w \<Rightarrow> trace w)"

definition depsOf :: "outcome \<Rightarrow> wid \<Rightarrow> path list" where
  "depsOf r work = (case finalWorld r of None \<Rightarrow> [] | Some w \<Rightarrow> w_deps (theWork w work))"

definition storeOf :: "outcome \<Rightarrow> sid \<Rightarrow> store" where
  "storeOf r i = (case finalWorld r of None \<Rightarrow> emptyStore | Some w \<Rightarrow> theStore w i)"







text \<open>The example of the class's documentation.\<close>

definition rainbow :: "cmd list" where
  "rainbow =
    [NewReactive [(''red'', LBool False), (''blue'', LBool False)] [],
     DefineComputed 0 (KStr ''multicolor'')
       (Some ([], AndE (PropE 0 (KStr ''red'') []) (PropE 0 (KStr ''blue'') []))),
     DefineWork 0 [If (CompE 0 (KStr ''multicolor'')) [Emit (Lit (LStr ''RAINBOW''))] []],
     Assign 0 (KStr ''red'') [] (Lit (LBool True)),
     Assign 0 (KStr ''blue'') [] (Lit (LBool True))]"



text \<open>A Work that reads \<^verbatim>\<open>x\<close>, then a Work that writes \<^verbatim>\<open>x\<close> and reads it.\<close>

definition selfWrite :: "cmd list" where
  "selfWrite =
    [NewReactive [(''x'', LNum 0)] [],
     DefineWork 0 [Eval (PropE 0 (KStr ''x'') [])],
     DefineWork 0 [Assign 0 (KStr ''x'') [] (Lit (LNum 1)), Eval (PropE 0 (KStr ''x'') [])]]"










definition sharedThenDestroyed :: "cmd list" where
  "sharedThenDestroyed =
    [NewReactive [(''x'', LNum 0)] [],
     NewReactive [] [],
     DefineSharedProp 1 0 (KStr ''y'') (KStr ''x''),
     Destroy 1]"

text \<open>A store with a Prop, a Computed and a Work.\<close>

definition smallStore :: "cmd list" where
  "smallStore =
    [NewReactive [(''a'', LNum 1)] [(''c'', ([], PropE 0 (KStr ''a'') []))],
     DefineWork 0 [Eval (PropE 0 (KStr ''a'') [])]]"

definition worldOf :: "outcome \<Rightarrow> world" where
  "worldOf r = (case finalWorld r of None \<Rightarrow> emptyWorld | Some w \<Rightarrow> w)"

text \<open>Defining a Prop twice: first with the value \<^verbatim>\<open>undefined\<close>, or first with a number.\<close>

definition redefineUndefined :: "cmd list" where
  "redefineUndefined =
    [NewReactive [] [],
     DefineProp 0 (KStr ''a'') (Lit LUndef),
     DefineProp 0 (KStr ''a'') (Lit (LNum 1))]"

definition redefineDefined :: "cmd list" where
  "redefineDefined =
    [NewReactive [(''a'', LNum 1)] [],
     DefineProp 0 (KStr ''a'') (Lit (LNum 2))]"






section \<open>Evaluation\<close>


lemma run_numeral: "run (numeral k) c w = step (run (pred_numeral k)) c w"
  by (simp add: numeral_eq_Suc)

lemma list_update_numeral: "(x # xs)[numeral k := v] = x # xs[pred_numeral k := v]"
  by (simp add: numeral_eq_Suc)

lemmas engine_defs =
  script_def emptyWorld_def step_def dispatchWorks_def startTick_def registry_def dispatchWork_def
  declareDependencies_def inferDependencies_def clearWorkBuffers_def runWork_def newReactive_def
  emptyStore_def destroy_def defineSharedProp_def linkPropInvalidation_def defineComputed_def
  defineWork_def pushWork_def newWork_def touch_def emit_def deleteMember_def assignComputed_def
  assign_def readProp_def validStore_def computedNamespaceSet_def computedNamespaceGet_def
  computedGetter_def needsUpdate_def defineProp_def defineProperty_def namespaceSet_def
  propSetter_def setProp_def memberDelete_def memberSet_def proxyDelete_def proxySet_def
  propEdited_def recordEdit_def createObjectProxy_def objectKeys_def setProperty_def getDeep_def
  readKey_def memberGet_def proxyGet_def namespaceGet_def propGetter_def propAccessed_def
  recordAccess_def linkedOf_def deleteField_def setField_def fieldOf_def computedValue_def
  propValue_def updStore_def theStore_def theObject_def theWork_def checkLoopInStack_def
  getReversedWorksDependencies_def run_numeral list_update_numeral

lemmas observe_defs = finalWorld_def thrown_def returned_def traceOf_def depsOf_def storeOf_def

section \<open>Path equality and the reverse-dependency index\<close>

lemma arraysAreEqual_iff: "length needle = length item \<Longrightarrow> arraysAreEqual needle item \<longleftrightarrow> needle = item"
  by (induction needle item rule: arraysAreEqual.induct) auto

lemma propPathExistsIn_iff: "propPathExistsIn needle haystack \<longleftrightarrow> needle \<in> set haystack"
  by (induction haystack) (auto simp: arraysAreEqual_iff)













section \<open>Dispatch of the invalidated paths\<close>

lemma bind_assoc: "bind (bind m f) g = bind m (\<lambda>v w. bind (f v w) g)"
  by (cases m) simp_all







section \<open>Calls that only read\<close>





































section \<open>The claims\<close>

subsection \<open>Invalidation by path\<close>











subsection \<open>The example of the documentation\<close>

lemma rainbow_defined: "traceOf (script 4 (take 3 rainbow)) = [Ran 0, Ran 1]"
  by (simp add: rainbow_def engine_defs observe_defs)

lemma rainbow_red: "traceOf (script 4 (take 4 rainbow)) = [Ran 0, Ran 1, Ran 0, Ran 1]"
  by (simp add: rainbow_def engine_defs observe_defs)

lemma rainbow_blue:
  "returned (script 4 rainbow) \<and>
   traceOf (script 4 rainbow) =
     [Ran 0, Ran 1, Ran 0, Ran 1, Ran 0, Ran 1, Emitted (VStr ''RAINBOW'')]"
  by (simp add: rainbow_def engine_defs observe_defs)

text \<open>
  Claim C2. With Props \<^verbatim>\<open>red\<close> and \<^verbatim>\<open>blue\<close>, both false, the Computed
  \<^verbatim>\<open>multicolor = red && blue\<close> (Work 0) and a Work that emits \<^verbatim>\<open>RAINBOW\<close> when
  \<^verbatim>\<open>multicolor\<close> is truthy (Work 1): nothing is emitted by the definitions nor by
  \<^verbatim>\<open>red = true\<close>, and \<^verbatim>\<open>blue = true\<close> then emits \<^verbatim>\<open>RAINBOW\<close> exactly once. The script
  returns.
\<close>

theorem rainbow_once_after_second_assignment:
  "returned (script 4 rainbow) \<and>
   traceOf (script 4 (take 3 rainbow)) = [Ran 0, Ran 1] \<and>
   traceOf (script 4 (take 4 rainbow)) = [Ran 0, Ran 1, Ran 0, Ran 1] \<and>
   traceOf (script 4 rainbow) =
     [Ran 0, Ran 1, Ran 0, Ran 1, Ran 0, Ran 1, Emitted (VStr ''RAINBOW'')]"
  using rainbow_defined rainbow_red rainbow_blue by simp

subsection \<open>A Work that writes what it reads\<close>

text \<open>
  Claim C3, at the input where the code breaks it. A Work reads \<^verbatim>\<open>x\<close> (Work 0). A second
  Work (Work 1) is defined that assigns \<^verbatim>\<open>x = 1\<close> and then reads \<^verbatim>\<open>x\<close>. Its first run is
  outside a tick, so its write starts a tick inside the run; that tick dispatches Work 0,
  and \<^verbatim>\<open>_dispatchWork\<close> empties the store's read and write buffers. When the run of Work 1
  ends, its write is no longer in the write buffer: the dependency set stored for Work 1
  holds \<^verbatim>\<open>['x']\<close>, a path it wrote in that same run.
\<close>

theorem self_write_declared_at_definition:
  "returned (script 4 selfWrite) \<and>
   traceOf (script 4 selfWrite) = [Ran 0, Ran 1, Ran 0] \<and>
   depsOf (script 4 selfWrite) 1 = [[KStr ''x'']]"
  by (simp add: selfWrite_def engine_defs observe_defs)

subsection \<open>The loop check\<close>












subsection \<open>Reading a Computed\<close>





subsection \<open>A Prop shared with another store\<close>











subsection \<open>Defining twice, assigning a Computed\<close>

text \<open>
  Claim C7, at the input where the code breaks it. A Prop \<^verbatim>\<open>a\<close> is defined with the value
  \<^verbatim>\<open>undefined\<close>. Defining \<^verbatim>\<open>a\<close> again passes the test of \<^verbatim>\<open>defineProp\<close> (which looks at
  the value, where \<^verbatim>\<open>defineFormProp\<close> asks \<^verbatim>\<open>hasOwnProperty\<close>), overwrites the value and
  only then fails, with the \<^verbatim>\<open>TypeError\<close> of \<^verbatim>\<open>Object.defineProperty\<close>. A Prop whose
  value is defined is refused with \<^verbatim>\<open>Prop already defined\<close> and keeps its value; an
  assignment to the entry of a Computed throws.
\<close>

theorem redefinition_of_undefined_prop:
  "thrown (script 4 redefineUndefined) = Some TypeError \<and>
   priv_props (storeOf (script 4 redefineUndefined) 0) = [(PStr ''a'', VNum 1)] \<and>
   thrown (script 4 redefineDefined) = Some PropAlreadyDefined \<and>
   priv_props (storeOf (script 4 redefineDefined) 0) = [(PStr ''a'', VNum 1)] \<and>
   thrown (script 4 (smallStore @ [AssignComputed 0 (KStr ''c'') (Lit (LNum 2))])) = Some SetComputed"
  by (simp add: redefineUndefined_def redefineDefined_def smallStore_def engine_defs observe_defs)

subsection \<open>Teardown\<close>

lemma smallStore_destroyed:
  "returned (script 4 (smallStore @ [Destroy 0])) \<and>
   priv_props (storeOf (script 4 (smallStore @ [Destroy 0])) 0) = [] \<and>
   priv_works (storeOf (script 4 (smallStore @ [Destroy 0])) 0) = [] \<and>
   priv_computeds (storeOf (script 4 (smallStore @ [Destroy 0])) 0) = [(PStr ''c'', VNum 1)]"
  by (simp add: smallStore_def engine_defs observe_defs)

lemma smallStore_destroyed_read:
  "traceOf (script 4 (smallStore @ [Destroy 0, Emit (CompE 0 (KStr ''c''))])) =
     [Ran 0, Ran 1, Emitted (VNum 1)]"
  by (simp add: smallStore_def engine_defs observe_defs)

text \<open>
  Claim C8, at the input where the code breaks it. A store with a Prop \<^verbatim>\<open>a = 1\<close>, a
  Computed \<^verbatim>\<open>c = a\<close> and a Work is destroyed. \<^verbatim>\<open>destroy\<close> empties \<^verbatim>\<open>_props\<close> and the
  registry, and never touches \<^verbatim>\<open>_computeds\<close>: the cached value of \<^verbatim>\<open>c\<close> is still there,
  and reading \<^verbatim>\<open>c\<close> still gives 1.
\<close>

theorem destroy_keeps_computed_values:
  "returned (script 4 (smallStore @ [Destroy 0])) \<and>
   priv_props (storeOf (script 4 (smallStore @ [Destroy 0])) 0) = [] \<and>
   priv_works (storeOf (script 4 (smallStore @ [Destroy 0])) 0) = [] \<and>
   priv_computeds (storeOf (script 4 (smallStore @ [Destroy 0])) 0) = [(PStr ''c'', VNum 1)] \<and>
   traceOf (script 4 (smallStore @ [Destroy 0, Emit (CompE 0 (KStr ''c''))])) =
     [Ran 0, Ran 1, Emitted (VNum 1)]"
  using smallStore_destroyed smallStore_destroyed_read by simp

subsection \<open>Assigning through a proxy\<close>













subsection \<open>Destroying the target of a link\<close>

lemma destroy_other: "j \<noteq> i \<Longrightarrow> theStore (destroy i w) j = theStore w j"
  by (simp add: destroy_def theStore_def updStore_def)

lemma destroy_works: "works (destroy i w) = works w"
  by (simp add: destroy_def updStore_def)

lemma destroy_links:
  "linkedPropInvalidations (theStore (destroy i w) j) = linkedPropInvalidations (theStore w j)"
  by (cases "j = i") (auto simp: destroy_def theStore_def updStore_def)

lemma sharedThenDestroyed_state:
  "linkedPropInvalidations (storeOf (script 6 sharedThenDestroyed) 0) =
     [(PStr ''x'', [(1, KStr ''y'')])] \<and>
   priv_works (storeOf (script 6 sharedThenDestroyed) 0) = [0] \<and>
   priv_props (storeOf (script 6 sharedThenDestroyed) 1) = []"
  by (simp add: sharedThenDestroyed_def engine_defs observe_defs)

lemma sharedThenDestroyed_edit:
  "traceOf (script 6 (sharedThenDestroyed @ [Assign 0 (KStr ''x'') [] (Lit (LNum 5))])) =
     [Ran 0, Ran 0] \<and>
   priv_props (storeOf (script 6 (sharedThenDestroyed @ [Assign 0 (KStr ''x'') [] (Lit (LNum 5))])) 1) =
     [(PStr ''y'', VNum 5)] \<and>
   editedPropsDuringWork
     (storeOf (script 6 (sharedThenDestroyed @ [Assign 0 (KStr ''x'') [] (Lit (LNum 5))])) 1) =
     [[KStr ''y'']]"
  by (simp add: sharedThenDestroyed_def engine_defs observe_defs)

lemma sharedThenDestroyed_access:
  "accessedPropsDuringWork
     (storeOf (script 6 (sharedThenDestroyed @ [Eval (PropE 0 (KStr ''x'') [])])) 1) =
     [[KStr ''y'']]"
  by (simp add: sharedThenDestroyed_def engine_defs observe_defs)

text \<open>
  Claim C10. \<^verbatim>\<open>destroy\<close> changes no other store and no Work, and leaves every link table
  as it was. Store 1 shares the Prop \<^verbatim>\<open>x\<close> of store 0 as \<^verbatim>\<open>y\<close> and is then destroyed:
  store 0 still links \<^verbatim>\<open>x\<close> to \<^verbatim>\<open>y\<close> of store 1 and still registers the copying Work
  (Work 0). An assignment to \<^verbatim>\<open>x\<close> on store 0 then runs the copying Work again, which
  puts the value back into the destroyed store's \<^verbatim>\<open>_props\<close>, and records the edit of
  \<^verbatim>\<open>['y']\<close> in the destroyed store; a read of \<^verbatim>\<open>x\<close> records the access of \<^verbatim>\<open>['y']\<close>
  there.
\<close>

theorem destroy_leaves_links:
  "(j \<noteq> i \<longrightarrow> theStore (destroy i w) j = theStore w j) \<and>
   works (destroy i w) = works w \<and>
   linkedPropInvalidations (theStore (destroy i w) j) = linkedPropInvalidations (theStore w j) \<and>
   linkedPropInvalidations (storeOf (script 6 sharedThenDestroyed) 0) =
     [(PStr ''x'', [(1, KStr ''y'')])] \<and>
   priv_works (storeOf (script 6 sharedThenDestroyed) 0) = [0] \<and>
   priv_props (storeOf (script 6 sharedThenDestroyed) 1) = [] \<and>
   traceOf (script 6 (sharedThenDestroyed @ [Assign 0 (KStr ''x'') [] (Lit (LNum 5))])) =
     [Ran 0, Ran 0] \<and>
   priv_props (storeOf (script 6 (sharedThenDestroyed @ [Assign 0 (KStr ''x'') [] (Lit (LNum 5))])) 1) =
     [(PStr ''y'', VNum 5)] \<and>
   editedPropsDuringWork
     (storeOf (script 6 (sharedThenDestroyed @ [Assign 0 (KStr ''x'') [] (Lit (LNum 5))])) 1) =
     [[KStr ''y'']] \<and>
   accessedPropsDuringWork
     (storeOf (script 6 (sharedThenDestroyed @ [Eval (PropE 0 (KStr ''x'') [])])) 1) =
     [[KStr ''y'']]"
  using destroy_other[of j i w] destroy_works[of i w] destroy_links[of i w j]
    sharedThenDestroyed_state sharedThenDestroyed_edit sharedThenDestroyed_access
  by blast

theorem destroy_leaves_links_witness:
  "theStore (destroy 1 (worldOf (script 6 (butlast sharedThenDestroyed)))) 0 =
     theStore (worldOf (script 6 (butlast sharedThenDestroyed))) 0"
  using destroy_leaves_links[of 0 1 "worldOf (script 6 (butlast sharedThenDestroyed))", THEN conjunct1]
  by simp

end
